theory Spec2Isabelle
  imports Main "HOL-Library.Word"
begin

section \<open>The functional-options HTTP client of \<^verbatim>\<open>options_pattern/main.go\<close>\<close>

text \<open>
  The program wraps a \<^verbatim>\<open>net/http\<close> client. A \<^verbatim>\<open>Client\<close> holds a pointer to the
  \<^verbatim>\<open>http.Client\<close> handle and three settings; an \<^verbatim>\<open>Option\<close> is a function that
  mutates a \<^verbatim>\<open>*Client\<close>; \<^verbatim>\<open>NewClient\<close> seeds the defaults and runs the options in
  the order given; \<^verbatim>\<open>Get\<close> builds a request, copies the settings onto the handle and
  hands both to \<^verbatim>\<open>http.Client.Do\<close>.

  Mutation through \<^verbatim>\<open>*Client\<close> is modelled by state passing: an option takes the
  client and returns the updated one. The handle pointer \<^verbatim>\<open>c.client\<close> may be nil in
  Go (the zero \<^verbatim>\<open>Client\<close>), so it is an \<open>option\<close>, and dereferencing nil is the
  panic the Go runtime raises.
\<close>

subsection \<open>Data\<close>

text \<open>\<^verbatim>\<open>time.Duration\<close> is an \<^verbatim>\<open>int64\<close> count of nanoseconds.\<close>

type_synonym Duration = "64 word"

definition Second :: Duration where
  "Second = 1000000000"

text \<open>
  The fields of \<^verbatim>\<open>tls.Config\<close> and \<^verbatim>\<open>http.Transport\<close> that matter here. A composite
  literal leaves every field it does not name at its zero value; \<open>ServerName\<close>,
  \<open>DisableKeepAlives\<close> and \<open>MaxIdleConns\<close> stand for those other fields.
\<close>

record tls_Config =
  InsecureSkipVerify :: bool
  ServerName :: string

record http_Transport =
  TLSClientConfig :: "tls_Config option"
  DisableKeepAlives :: bool
  MaxIdleConns :: int

text \<open>
  Go's \<^verbatim>\<open>error\<close> values that reach this program: the sentinel
  \<^verbatim>\<open>http.ErrUseLastResponse\<close> and the three kinds the specification names.
\<close>

datatype error =
  ErrUseLastResponse
  | InvalidRequestError string
  | TimeoutError
  | TransportError string

record Request =
  Method :: string
  URL :: string
  Header :: "string \<rightharpoonup> string list"

record Response =
  StatusCode :: int
  Body :: string

text \<open>
  \<^verbatim>\<open>http.Client\<close>: a nil \<open>Transport\<close> means \<^verbatim>\<open>http.DefaultTransport\<close>, a nil
  \<open>CheckRedirect\<close> the default redirect policy, a zero \<open>Timeout\<close> no timeout. (Its
  cookie jar is never read or written by this program.)
\<close>

record http_Client =
  Transport :: "http_Transport option"
  CheckRedirect :: "(Request \<Rightarrow> Request list \<Rightarrow> error option) option"
  Timeout :: Duration

record Client =
  client :: "http_Client option"
  timeout :: Duration
  userAgent :: string
  followRedirects :: bool

datatype panic = NilPointerDereference

type_synonym Option = "Client \<Rightarrow> panic + Client"

subsection \<open>The options\<close>

definition WithTimeout :: "Duration \<Rightarrow> Option" where
  "WithTimeout d c = Inr (c\<lparr>timeout := d\<rparr>)"

definition WithUserAgent :: "string \<Rightarrow> Option" where
  "WithUserAgent s c = Inr (c\<lparr>userAgent := s\<rparr>)"

definition WithoutRedirects :: Option where
  "WithoutRedirects c = Inr (c\<lparr>followRedirects := False\<rparr>)"

text \<open>
  \<^verbatim>\<open>c.client.Transport = &http.Transport{TLSClientConfig: &tls.Config{InsecureSkipVerify: true}}\<close>:
  a fresh transport, every other field zero, stored through the handle pointer.
\<close>

definition insecureTransport :: http_Transport where
  "insecureTransport =
     \<lparr>TLSClientConfig = Some \<lparr>InsecureSkipVerify = True, ServerName = []\<rparr>,
      DisableKeepAlives = False, MaxIdleConns = 0\<rparr>"

definition UseInsecureTransport :: Option where
  "UseInsecureTransport c =
     (case client c of
        None \<Rightarrow> Inl NilPointerDereference
      | Some hc \<Rightarrow> Inr (c\<lparr>client := Some (hc\<lparr>Transport := Some insecureTransport\<rparr>)\<rparr>))"

subsection \<open>NewClient\<close>

text \<open>The loop \<^verbatim>\<open>for _, opt := range options { opt(client) }\<close>; a panic ends it.\<close>

fun apply_options :: "Option list \<Rightarrow> Client \<Rightarrow> panic + Client" where
  "apply_options [] c = Inr c"
| "apply_options (opt # options) c =
     (case opt c of Inl p \<Rightarrow> Inl p | Inr c' \<Rightarrow> apply_options options c')"

definition defaultClient :: Client where
  "defaultClient =
     \<lparr>client = Some \<lparr>Transport = None, CheckRedirect = None, Timeout = 0\<rparr>,
      timeout = 30 * Second,
      userAgent = ''My HTTP Client'',
      followRedirects = True\<rparr>"

definition NewClient :: "Option list \<Rightarrow> panic + Client" where
  "NewClient options = apply_options options defaultClient"

text \<open>
  Whether a handle verifies the server's certificate: \<^verbatim>\<open>http.DefaultTransport\<close> (a
  nil \<open>Transport\<close>) and a transport with no TLS configuration verify; otherwise the
  configuration's \<open>InsecureSkipVerify\<close> decides.
\<close>

definition verifiesCertificates :: "http_Client \<Rightarrow> bool" where
  "verifiesCertificates hc =
     (case Transport hc of
        None \<Rightarrow> True
      | Some t \<Rightarrow> (case TLSClientConfig t of None \<Rightarrow> True | Some cfg \<Rightarrow> \<not> InsecureSkipVerify cfg))"

subsection \<open>Sequences of the package's own options\<close>

text \<open>
  The four option constructors of the package, as a caller writes them in an argument
  list, and the \<open>Option\<close> each call evaluates to.
\<close>

datatype definedOption =
  OptWithTimeout Duration
  | OptWithUserAgent string
  | OptWithoutRedirects
  | OptUseInsecureTransport

fun toOption :: "definedOption \<Rightarrow> Option" where
  "toOption (OptWithTimeout d) = WithTimeout d"
| "toOption (OptWithUserAgent s) = WithUserAgent s"
| "toOption OptWithoutRedirects = WithoutRedirects"
| "toOption OptUseInsecureTransport = UseInsecureTransport"

text \<open>The arguments of the \<open>WithTimeout\<close> (\<open>WithUserAgent\<close>) calls of a sequence, in order.\<close>

fun timeoutArgs :: "definedOption list \<Rightarrow> Duration list" where
  "timeoutArgs [] = []"
| "timeoutArgs (OptWithTimeout d # ds) = d # timeoutArgs ds"
| "timeoutArgs (_ # ds) = timeoutArgs ds"

fun userAgentArgs :: "definedOption list \<Rightarrow> string list" where
  "userAgentArgs [] = []"
| "userAgentArgs (OptWithUserAgent s # ds) = s # userAgentArgs ds"
| "userAgentArgs (_ # ds) = userAgentArgs ds"

subsection \<open>Options a caller can write\<close>

text \<open>
  An option other than the package's four, to have a transport customised before
  \<open>UseInsecureTransport\<close> runs:
  \<^verbatim>\<open>func(c *Client) { c.client.Transport = &http.Transport{DisableKeepAlives: true, MaxIdleConns: 5} }\<close>.
\<close>

definition tunedTransport :: http_Transport where
  "tunedTransport = \<lparr>TLSClientConfig = None, DisableKeepAlives = True, MaxIdleConns = 5\<rparr>"

definition UseTunedTransport :: Option where
  "UseTunedTransport c =
     (case client c of
        None \<Rightarrow> Inl NilPointerDereference
      | Some hc \<Rightarrow> Inr (c\<lparr>client := Some (hc\<lparr>Transport := Some tunedTransport\<rparr>)\<rparr>))"

subsection \<open>Get\<close>

text \<open>
  \<^verbatim>\<open>http.NewRequest\<close> and \<^verbatim>\<open>http.Client.Do\<close> belong to the Go standard library, not
  to this program: \<open>Get\<close> takes them as parameters. \<open>NewRequest method url\<close> either
  rejects the target or returns a request; \<open>Do hc req\<close> is what the handle answers,
  \<open>None\<close> when the call never returns.
\<close>

record net_http =
  NewRequest :: "string \<Rightarrow> string \<Rightarrow> error + Request"
  Do :: "http_Client \<Rightarrow> Request \<Rightarrow> (error + Response) option"

text \<open>
  Modelled from the spec: \<^verbatim>\<open>Header.Set\<close> of the standard library is not under src/.
  The request's header named \<open>key\<close> is set to the single value given, replacing what was
  there; an empty value is stored like any other (``header present with empty value'').
  The key \<open>User-Agent\<close> is already in canonical form.
\<close>

definition Header_Set :: "(string \<rightharpoonup> string list) \<Rightarrow> string \<Rightarrow> string \<Rightarrow> (string \<rightharpoonup> string list)" where
  "Header_Set h key v = h(key \<mapsto> [v])"

text \<open>
  The closure stored in \<^verbatim>\<open>c.client.CheckRedirect\<close>. It reads \<^verbatim>\<open>c.followRedirects\<close>
  when the handle consults it, which is during the \<^verbatim>\<open>Do\<close> of the same call: the
  field then has the value it has when \<open>Get\<close> is called.
\<close>

definition Get_CheckRedirect :: "Client \<Rightarrow> Request \<Rightarrow> Request list \<Rightarrow> error option" where
  "Get_CheckRedirect c req via = (if \<not> followRedirects c then Some ErrUseLastResponse else None)"

text \<open>
  What a call of \<open>Get\<close> leaves behind: the receiver after the call, the arguments of
  each \<^verbatim>\<open>c.client.Do\<close> invocation the call made, and the pair it returned.
\<close>

record GetResult =
  receiver :: Client
  dispatched :: "(http_Client \<times> Request) list"
  returned :: "error + Response"

definition Get :: "net_http \<Rightarrow> Client \<Rightarrow> string \<Rightarrow> (panic + GetResult) option" where
  "Get lib c url =
     (case NewRequest lib ''GET'' url of
        Inl err \<Rightarrow> Some (Inr \<lparr>receiver = c, dispatched = [], returned = Inl err\<rparr>)
      | Inr req \<Rightarrow>
          (let req' = req\<lparr>Header := Header_Set (Header req) ''User-Agent'' (userAgent c)\<rparr> in
           case client c of
             None \<Rightarrow> Some (Inl NilPointerDereference)
           | Some hc \<Rightarrow>
               (let hc' = hc\<lparr>Timeout := timeout c\<rparr>;
                    hc'' = hc'\<lparr>CheckRedirect := Some (Get_CheckRedirect c)\<rparr>;
                    c' = c\<lparr>client := Some hc''\<rparr>
                in case Do lib hc'' req' of
                     None \<Rightarrow> None
                   | Some r \<Rightarrow>
                       Some (Inr \<lparr>receiver = c', dispatched = [(hc'', req')], returned = r\<rparr>))))"

subsection \<open>The handle's redirect loop\<close>

text \<open>
  Modelled from the spec: \<^verbatim>\<open>http.Client.Do\<close> is not under src/. The specification
  (4.3, 6) describes the collaborator as one that, on a redirect response, either stops
  and returns that response as it is or follows it, as the redirect policy says; the
  policy is the handle's \<open>CheckRedirect\<close>, which answers \<open>ErrUseLastResponse\<close> to
  stop, another error to fail, and nothing to go on. \<open>RoundTrip\<close> is one exchange with
  the endpoint; \<open>redirectTarget req resp\<close> is the request that follows the redirect
  \<open>resp\<close>, \<open>None\<close> when \<open>resp\<close> is not a redirect. A chain of redirects that never
  ends is a call that never returns.
\<close>

record endpoint =
  RoundTrip :: "http_Client \<Rightarrow> Request \<Rightarrow> error + Response"
  redirectTarget :: "Request \<Rightarrow> Response \<Rightarrow> Request option"

definition defaultCheckRedirect :: "Request \<Rightarrow> Request list \<Rightarrow> error option" where
  "defaultCheckRedirect req via =
     (if length via \<ge> 10 then Some (TransportError ''stopped after 10 redirects'') else None)"

definition checkRedirect :: "http_Client \<Rightarrow> Request \<Rightarrow> Request list \<Rightarrow> error option" where
  "checkRedirect hc = (case CheckRedirect hc of None \<Rightarrow> defaultCheckRedirect | Some f \<Rightarrow> f)"

partial_function (option) followRedirectsLoop ::
  "endpoint \<Rightarrow> http_Client \<Rightarrow> Request \<Rightarrow> Request list \<Rightarrow> (error + Response) option" where
  "followRedirectsLoop w hc req via =
     (case RoundTrip w hc req of
        Inl err \<Rightarrow> Some (Inl err)
      | Inr resp \<Rightarrow>
          (case redirectTarget w req resp of
             None \<Rightarrow> Some (Inr resp)
           | Some nxt \<Rightarrow>
               (case checkRedirect hc nxt (via @ [req]) of
                  None \<Rightarrow> followRedirectsLoop w hc nxt (via @ [req])
                | Some err \<Rightarrow>
                    if err = ErrUseLastResponse then Some (Inr resp) else Some (Inl err))))"

definition http_Client_Do :: "endpoint \<Rightarrow> http_Client \<Rightarrow> Request \<Rightarrow> (error + Response) option" where
  "http_Client_Do w hc req = followRedirectsLoop w hc req []"

subsection \<open>A library and an endpoint to run examples on\<close>

text \<open>
  A stand-in for the standard library: \<open>NewRequest\<close> rejects the target \<open>:foo\<close> (a
  colon with no scheme before it) and accepts every other string; the endpoint answers
  302 at \<open>/old\<close>, pointing to \<open>/new\<close>, and 200 everywhere else.
\<close>

definition exampleNewRequest :: "string \<Rightarrow> string \<Rightarrow> error + Request" where
  "exampleNewRequest method url =
     (if url = '':foo'' then Inl (InvalidRequestError ''missing protocol scheme'')
      else Inr \<lparr>Method = method, URL = url, Header = Map.empty\<rparr>)"

definition exampleEndpoint :: endpoint where
  "exampleEndpoint =
     \<lparr>RoundTrip = (\<lambda>hc req.
        if URL req = ''http://example.test/old'' then Inr \<lparr>StatusCode = 302, Body = []\<rparr>
        else Inr \<lparr>StatusCode = 200, Body = ''moved here''\<rparr>),
      redirectTarget = (\<lambda>req resp.
        if StatusCode resp = 302 then Some (req\<lparr>URL := ''http://example.test/new''\<rparr>)
        else None)\<rparr>"

definition exampleLib :: net_http where
  "exampleLib = \<lparr>NewRequest = exampleNewRequest, Do = http_Client_Do exampleEndpoint\<rparr>"

text \<open>
  The standard library at the two targets the specification gives as examples of a
  malformed one. Go's \<^verbatim>\<open>url.Parse\<close> accepts the empty string and a string with no scheme
  (each is a relative reference), so \<^verbatim>\<open>http.NewRequest\<close> returns a request for them;
  it is \<^verbatim>\<open>Do\<close> that refuses such a request, before any network traffic, because its
  URL has no scheme the transport supports. \<open>schemeCheckedLib\<close> is \<open>exampleLib\<close> with
  that check in \<open>Do\<close>.
\<close>

definition hasHTTPScheme :: "string \<Rightarrow> bool" where
  "hasHTTPScheme url = (take 7 url = ''http://'' \<or> take 8 url = ''https://'')"

definition schemeCheckedLib :: net_http where
  "schemeCheckedLib =
     \<lparr>NewRequest = exampleNewRequest,
      Do = (\<lambda>hc req.
        if hasHTTPScheme (URL req) then http_Client_Do exampleEndpoint hc req
        else Some (Inl (TransportError ''unsupported protocol scheme'')))\<rparr>"

section \<open>Properties\<close>

text \<open>
  C1. With no options, \<open>NewClient\<close> returns the defaults: a timeout of 30 seconds
  (30,000,000,000 ns), the user agent \<open>My HTTP Client\<close>, redirects followed, and a
  handle with no transport of its own, which is the standard, certificate-verifying one.
\<close>

theorem NewClient_defaults:
  "NewClient [] =
     Inr \<lparr>client = Some \<lparr>Transport = None, CheckRedirect = None, Timeout = 0\<rparr>,
          timeout = 30000000000,
          userAgent = ''My HTTP Client'',
          followRedirects = True\<rparr>
   \<and> verifiesCertificates \<lparr>Transport = None, CheckRedirect = None, Timeout = 0\<rparr>"
  by (simp add: NewClient_def defaultClient_def Second_def verifiesCertificates_def)

subsection \<open>Running sequences of options\<close>

lemma apply_options_append:
  "apply_options (xs @ ys) c =
     (case apply_options xs c of Inl p \<Rightarrow> Inl p | Inr c' \<Rightarrow> apply_options ys c')"
  by (induction xs arbitrary: c) (auto split: sum.splits)

lemma toOption_keeps_handle:
  "client c = Some hc \<Longrightarrow> \<exists>c' hc'. toOption d c = Inr c' \<and> client c' = Some hc'"
  by (cases d)
     (simp_all add: WithTimeout_def WithUserAgent_def WithoutRedirects_def UseInsecureTransport_def)

lemma timeoutArgs_append: "timeoutArgs (ds @ es) = timeoutArgs ds @ timeoutArgs es"
  by (induction ds rule: timeoutArgs.induct) simp_all

lemma userAgentArgs_append: "userAgentArgs (ds @ es) = userAgentArgs ds @ userAgentArgs es"
  by (induction ds rule: userAgentArgs.induct) simp_all

lemma last_default_twice: "last (x # xs @ xs) = last (x # xs)"
  by (cases xs) simp_all

lemma apply_defined_options:
  "client c = Some hc \<Longrightarrow>
   apply_options (map toOption ds) c =
     Inr \<lparr>client = Some (hc\<lparr>Transport :=
              if OptUseInsecureTransport \<in> set ds then Some insecureTransport else Transport hc\<rparr>),
          timeout = last (timeout c # timeoutArgs ds),
          userAgent = last (userAgent c # userAgentArgs ds),
          followRedirects = (followRedirects c \<and> OptWithoutRedirects \<notin> set ds)\<rparr>"
proof (induction ds arbitrary: c hc)
  case Nil
  then show ?case by simp
next
  case (Cons d ds)
  show ?case
  proof (cases d)
    case (OptWithTimeout x)
    with Cons.IH [of "c\<lparr>timeout := x\<rparr>" hc] Cons.prems show ?thesis
      by (simp add: WithTimeout_def)
  next
    case (OptWithUserAgent s)
    with Cons.IH [of "c\<lparr>userAgent := s\<rparr>" hc] Cons.prems show ?thesis
      by (simp add: WithUserAgent_def)
  next
    case OptWithoutRedirects
    with Cons.IH [of "c\<lparr>followRedirects := False\<rparr>" hc] Cons.prems show ?thesis
      by (simp add: WithoutRedirects_def)
  next
    case OptUseInsecureTransport
    with Cons.IH [of "c\<lparr>client := Some (hc\<lparr>Transport := Some insecureTransport\<rparr>)\<rparr>"
                     "hc\<lparr>Transport := Some insecureTransport\<rparr>"] Cons.prems show ?thesis
      by (simp add: UseInsecureTransport_def)
  qed
qed

lemma NewClient_defined_options:
  "NewClient (map toOption ds) =
     Inr \<lparr>client = Some \<lparr>Transport =
              if OptUseInsecureTransport \<in> set ds then Some insecureTransport else None,
              CheckRedirect = None, Timeout = 0\<rparr>,
          timeout = last (30 * Second # timeoutArgs ds),
          userAgent = last (''My HTTP Client'' # userAgentArgs ds),
          followRedirects = (OptWithoutRedirects \<notin> set ds)\<rparr>"
  unfolding NewClient_def
  by (subst apply_defined_options [where hc = "\<lparr>Transport = None, CheckRedirect = None, Timeout = 0\<rparr>"])
     (simp_all add: defaultClient_def)

lemma NewClient_snoc:
  "NewClient (os @ [opt]) = (case NewClient os of Inl p \<Rightarrow> Inl p | Inr c \<Rightarrow> opt c)"
  by (simp add: NewClient_def apply_options_append split: sum.splits)

text \<open>
  C7. Each of \<open>WithTimeout d\<close>, \<open>WithUserAgent s\<close> and \<open>WithoutRedirects\<close> returns, from
  any starting record, a record in which its own field has the new value and the three
  other fields (the handle included) are what they were.
\<close>

theorem options_frame:
  "(\<exists>c'. WithTimeout d c = Inr c' \<and> timeout c' = d
         \<and> userAgent c' = userAgent c \<and> followRedirects c' = followRedirects c
         \<and> client c' = client c)
   \<and> (\<exists>c'. WithUserAgent s c = Inr c' \<and> userAgent c' = s
         \<and> timeout c' = timeout c \<and> followRedirects c' = followRedirects c
         \<and> client c' = client c)
   \<and> (\<exists>c'. WithoutRedirects c = Inr c' \<and> followRedirects c' = False
         \<and> timeout c' = timeout c \<and> userAgent c' = userAgent c
         \<and> client c' = client c)"
  by (simp add: WithTimeout_def WithUserAgent_def WithoutRedirects_def)

text \<open>
  C2. \<open>NewClient\<close> runs the options from left to right: an option appended to a
  sequence runs on the client the sequence produced. So for the package's options each
  field ends with the argument of the last call that set it (the default when none
  did); of two \<open>WithTimeout\<close> calls the later one decides, whatever stands between and
  before them; and \<open>[WithTimeout 5s, WithTimeout 10s]\<close> resolves to 10 seconds.
\<close>

theorem NewClient_last_write_wins:
  "NewClient (os @ [opt]) = (case NewClient os of Inl p \<Rightarrow> Inl p | Inr c \<Rightarrow> opt c)
   \<and> (\<exists>c. NewClient (map toOption ds) = Inr c
          \<and> timeout c = last (30 * Second # timeoutArgs ds)
          \<and> userAgent c = last (''My HTTP Client'' # userAgentArgs ds)
          \<and> followRedirects c = (OptWithoutRedirects \<notin> set ds))
   \<and> (\<exists>c. NewClient (map toOption (ds @ OptWithTimeout d1 # es @ OptWithTimeout d2 # fs)) = Inr c
          \<and> timeout c = last (d2 # timeoutArgs fs))
   \<and> (\<exists>c. NewClient [WithTimeout (5 * Second), WithTimeout (10 * Second)] = Inr c
          \<and> timeout c = 10 * Second)"
proof (intro conjI)
  show "NewClient (os @ [opt]) = (case NewClient os of Inl p \<Rightarrow> Inl p | Inr c \<Rightarrow> opt c)"
    by (rule NewClient_snoc)
  show "\<exists>c. NewClient (map toOption ds) = Inr c
          \<and> timeout c = last (30 * Second # timeoutArgs ds)
          \<and> userAgent c = last (''My HTTP Client'' # userAgentArgs ds)
          \<and> followRedirects c = (OptWithoutRedirects \<notin> set ds)"
    unfolding NewClient_defined_options by simp
  have "last (30 * Second # timeoutArgs (ds @ OptWithTimeout d1 # es @ OptWithTimeout d2 # fs))
          = last (d2 # timeoutArgs fs)"
    by (simp add: timeoutArgs_append)
  then show "\<exists>c. NewClient (map toOption (ds @ OptWithTimeout d1 # es @ OptWithTimeout d2 # fs)) = Inr c
          \<and> timeout c = last (d2 # timeoutArgs fs)"
    unfolding NewClient_defined_options by simp
  show "\<exists>c. NewClient [WithTimeout (5 * Second), WithTimeout (10 * Second)] = Inr c
          \<and> timeout c = 10 * Second"
    by (simp add: NewClient_def WithTimeout_def)
qed

lemma apply_replicate_WithoutRedirects:
  "apply_options (replicate (Suc n) WithoutRedirects) c = WithoutRedirects c"
  by (induction n arbitrary: c) (simp_all add: WithoutRedirects_def)

text \<open>
  C8. An option sequence is a list of calls of the package's option constructors
  (\<open>WithTimeout\<close>, \<open>WithUserAgent\<close>, \<open>WithoutRedirects\<close>, \<open>UseInsecureTransport\<close>). For
  every such sequence, applying the sequence followed by itself to the defaults yields
  what applying it once yields; and \<open>WithoutRedirects\<close> applied any number of times,
  from any record, yields what one application yields.
\<close>

theorem defined_options_twice:
  "NewClient (map toOption (ds @ ds)) = NewClient (map toOption ds)
   \<and> apply_options (replicate (Suc n) WithoutRedirects) c = WithoutRedirects c"
proof
  have "last (x # timeoutArgs (ds @ ds)) = last (x # timeoutArgs ds)" for x
    by (simp only: timeoutArgs_append last_default_twice)
  moreover have "last (x # userAgentArgs (ds @ ds)) = last (x # userAgentArgs ds)" for x
    by (simp only: userAgentArgs_append last_default_twice)
  ultimately show "NewClient (map toOption (ds @ ds)) = NewClient (map toOption ds)"
    unfolding NewClient_defined_options [of "ds @ ds"] NewClient_defined_options [of ds]
    by simp
  show "apply_options (replicate (Suc n) WithoutRedirects) c = WithoutRedirects c"
    by (rule apply_replicate_WithoutRedirects)
qed

text \<open>
  C9. Construction cannot fail: for every sequence of the package's options,
  \<open>NewClient\<close> returns a client (no panic), and that client is the resolved record
  around a handle: each setting has the argument of the last call that set it (the
  default when none did), and the handle is the one allocated at the start, with the
  insecure transport exactly when \<open>UseInsecureTransport\<close> was among the options. Each
  option is total where \<open>NewClient\<close> runs it: applied to the record the options before it
  produced, it returns a record. The three field options return a record from every
  record whatsoever, and every option of the package returns one, handle kept, from
  every record that holds a handle.
\<close>

theorem NewClient_always_succeeds:
  "NewClient (map toOption ds) =
     Inr \<lparr>client = Some \<lparr>Transport =
              if OptUseInsecureTransport \<in> set ds then Some insecureTransport else None,
              CheckRedirect = None, Timeout = 0\<rparr>,
          timeout = last (30 * Second # timeoutArgs ds),
          userAgent = last (''My HTTP Client'' # userAgentArgs ds),
          followRedirects = (OptWithoutRedirects \<notin> set ds)\<rparr>
   \<and> (\<exists>c c'. NewClient (map toOption ds) = Inr c \<and> toOption d c = Inr c'
          \<and> NewClient (map toOption (ds @ [d])) = Inr c')
   \<and> (\<exists>c hc. NewClient (map toOption ds) = Inr c \<and> client c = Some hc)
   \<and> (\<exists>c'. WithTimeout t c0 = Inr c')
   \<and> (\<exists>c'. WithUserAgent s c0 = Inr c')
   \<and> (\<exists>c'. WithoutRedirects c0 = Inr c')
   \<and> (\<exists>c' hc'. UseInsecureTransport (c0\<lparr>client := Some hc0\<rparr>) = Inr c' \<and> client c' = Some hc')
   \<and> (\<exists>c' hc'. toOption d (c0\<lparr>client := Some hc0\<rparr>) = Inr c' \<and> client c' = Some hc')"
proof (intro conjI)
  show "NewClient (map toOption ds) =
     Inr \<lparr>client = Some \<lparr>Transport =
              if OptUseInsecureTransport \<in> set ds then Some insecureTransport else None,
              CheckRedirect = None, Timeout = 0\<rparr>,
          timeout = last (30 * Second # timeoutArgs ds),
          userAgent = last (''My HTTP Client'' # userAgentArgs ds),
          followRedirects = (OptWithoutRedirects \<notin> set ds)\<rparr>"
    by (rule NewClient_defined_options)
  have built: "\<exists>c hc. NewClient (map toOption ds) = Inr c \<and> client c = Some hc"
    unfolding NewClient_defined_options by simp
  then obtain c hc where c: "NewClient (map toOption ds) = Inr c" and hc: "client c = Some hc"
    by blast
  from toOption_keeps_handle [OF hc] obtain c' where c': "toOption d c = Inr c'"
    by blast
  have "NewClient (map toOption (ds @ [d])) = Inr c'"
    using NewClient_snoc [of "map toOption ds" "toOption d"] c c' by simp
  with c c' show "\<exists>c c'. NewClient (map toOption ds) = Inr c \<and> toOption d c = Inr c'
          \<and> NewClient (map toOption (ds @ [d])) = Inr c'"
    by blast
  show "\<exists>c hc. NewClient (map toOption ds) = Inr c \<and> client c = Some hc"
    by (rule built)
  show "\<exists>c'. WithTimeout t c0 = Inr c'"
    by (simp add: WithTimeout_def)
  show "\<exists>c'. WithUserAgent s c0 = Inr c'"
    by (simp add: WithUserAgent_def)
  show "\<exists>c'. WithoutRedirects c0 = Inr c'"
    by (simp add: WithoutRedirects_def)
  show "\<exists>c' hc'. UseInsecureTransport (c0\<lparr>client := Some hc0\<rparr>) = Inr c' \<and> client c' = Some hc'"
    by (simp add: UseInsecureTransport_def)
  show "\<exists>c' hc'. toOption d (c0\<lparr>client := Some hc0\<rparr>) = Inr c' \<and> client c' = Some hc'"
    by (rule toOption_keeps_handle) simp
qed

text \<open>
  C3. Let \<open>c\<close>, with handle \<open>hc\<close>, be what any sequence of options produced, whatever
  transport those options gave the handle. Appending \<open>UseInsecureTransport\<close> replaces
  the handle's transport with the fresh one whose only setting is
  \<open>InsecureSkipVerify\<close>: nothing of the earlier transport is left, the handle no longer
  verifies certificates, and options of the package that come later keep it so.
\<close>

theorem UseInsecureTransport_overrides:
  assumes "NewClient os = Inr c" and "client c = Some hc"
  shows "NewClient (os @ [UseInsecureTransport])
           = Inr (c\<lparr>client := Some (hc\<lparr>Transport := Some insecureTransport\<rparr>)\<rparr>)
         \<and> \<not> verifiesCertificates (hc\<lparr>Transport := Some insecureTransport\<rparr>)
         \<and> (\<exists>c' hc'. NewClient (os @ UseInsecureTransport # map toOption ds) = Inr c'
               \<and> client c' = Some hc' \<and> Transport hc' = Some insecureTransport)"
proof (intro conjI)
  show one: "NewClient (os @ [UseInsecureTransport])
           = Inr (c\<lparr>client := Some (hc\<lparr>Transport := Some insecureTransport\<rparr>)\<rparr>)"
    using assms by (simp add: NewClient_snoc UseInsecureTransport_def)
  show "\<not> verifiesCertificates (hc\<lparr>Transport := Some insecureTransport\<rparr>)"
    by (simp add: verifiesCertificates_def insecureTransport_def)
  have "NewClient (os @ UseInsecureTransport # map toOption ds)
          = apply_options (map toOption ds)
              (c\<lparr>client := Some (hc\<lparr>Transport := Some insecureTransport\<rparr>)\<rparr>)"
    using one apply_options_append [of "os @ [UseInsecureTransport]" "map toOption ds" defaultClient]
    by (simp add: NewClient_def)
  then show "\<exists>c' hc'. NewClient (os @ UseInsecureTransport # map toOption ds) = Inr c'
               \<and> client c' = Some hc' \<and> Transport hc' = Some insecureTransport"
    by (simp add: apply_defined_options [where hc = "hc\<lparr>Transport := Some insecureTransport\<rparr>"])
qed

theorem UseInsecureTransport_overrides_witness:
  "NewClient [UseTunedTransport] =
      Inr (defaultClient\<lparr>client := Some \<lparr>Transport = Some tunedTransport, CheckRedirect = None, Timeout = 0\<rparr>\<rparr>)
   \<and> NewClient ([UseTunedTransport] @ [UseInsecureTransport]) =
      Inr (defaultClient\<lparr>client := Some \<lparr>Transport = Some insecureTransport, CheckRedirect = None, Timeout = 0\<rparr>\<rparr>)
   \<and> tunedTransport \<noteq> insecureTransport"
proof -
  have a: "NewClient [UseTunedTransport] =
      Inr (defaultClient\<lparr>client := Some \<lparr>Transport = Some tunedTransport, CheckRedirect = None, Timeout = 0\<rparr>\<rparr>)"
    by (simp add: NewClient_def UseTunedTransport_def defaultClient_def)
  have b: "client (defaultClient\<lparr>client := Some \<lparr>Transport = Some tunedTransport, CheckRedirect = None, Timeout = 0\<rparr>\<rparr>)
      = Some \<lparr>Transport = Some tunedTransport, CheckRedirect = None, Timeout = 0\<rparr>"
    by simp
  show ?thesis
    using UseInsecureTransport_overrides [OF a b, of "[]"] a
    by (simp add: tunedTransport_def insecureTransport_def)
qed

subsection \<open>Get\<close>

lemma Get_rejected:
  "NewRequest lib ''GET'' url = Inl err \<Longrightarrow>
   Get lib c url = Some (Inr \<lparr>receiver = c, dispatched = [], returned = Inl err\<rparr>)"
  by (simp add: Get_def)

lemma Get_accepted:
  assumes "NewRequest lib ''GET'' url = Inr req" and "client c = Some hc"
  shows "Get lib c url =
     (case Do lib (hc\<lparr>Timeout := timeout c, CheckRedirect := Some (Get_CheckRedirect c)\<rparr>)
                  (req\<lparr>Header := Header_Set (Header req) ''User-Agent'' (userAgent c)\<rparr>) of
        None \<Rightarrow> None
      | Some r \<Rightarrow>
          Some (Inr \<lparr>receiver = c\<lparr>client := Some (hc\<lparr>Timeout := timeout c,
                                    CheckRedirect := Some (Get_CheckRedirect c)\<rparr>)\<rparr>,
                    dispatched = [(hc\<lparr>Timeout := timeout c, CheckRedirect := Some (Get_CheckRedirect c)\<rparr>,
                                   req\<lparr>Header := Header_Set (Header req) ''User-Agent'' (userAgent c)\<rparr>)],
                    returned = r\<rparr>))"
  using assms by (simp add: Get_def Let_def)



lemma example_accepts:
  "url \<noteq> '':foo'' \<Longrightarrow>
   NewRequest exampleLib ''GET'' url = Inr \<lparr>Method = ''GET'', URL = url, Header = Map.empty\<rparr>"
  by (simp add: exampleLib_def exampleNewRequest_def)

lemma example_final_answer:
  "URL req \<noteq> ''http://example.test/old'' \<Longrightarrow>
   followRedirectsLoop exampleEndpoint hc req via = Some (Inr \<lparr>StatusCode = 200, Body = ''moved here''\<rparr>)"
  by (subst followRedirectsLoop.simps) (simp add: exampleEndpoint_def)

text \<open>
  C5, as stated, fails at its own examples. The empty string and a string with no
  scheme are accepted by \<open>NewRequest\<close>, so \<open>Get\<close> goes on: it sets the header, writes the
  timeout and the redirect policy on the handle, and invokes \<open>Do\<close>, and the error it
  returns is the one \<open>Do\<close> gave, not one from \<open>NewRequest\<close>.
\<close>

theorem Get_scheme_less_target_reaches_Do:
  "Get schemeCheckedLib defaultClient [] =
     Some (Inr \<lparr>receiver = defaultClient\<lparr>client :=
                   Some \<lparr>Transport = None,
                         CheckRedirect = Some (Get_CheckRedirect defaultClient),
                         Timeout = 30 * Second\<rparr>\<rparr>,
                 dispatched =
                   [(\<lparr>Transport = None,
                      CheckRedirect = Some (Get_CheckRedirect defaultClient),
                      Timeout = 30 * Second\<rparr>,
                     \<lparr>Method = ''GET'', URL = [],
                      Header = Map.empty(''User-Agent'' \<mapsto> [''My HTTP Client''])\<rparr>)],
                 returned = Inl (TransportError ''unsupported protocol scheme'')\<rparr>)
   \<and> Get schemeCheckedLib defaultClient ''example.test/users'' =
     Some (Inr \<lparr>receiver = defaultClient\<lparr>client :=
                   Some \<lparr>Transport = None,
                         CheckRedirect = Some (Get_CheckRedirect defaultClient),
                         Timeout = 30 * Second\<rparr>\<rparr>,
                 dispatched =
                   [(\<lparr>Transport = None,
                      CheckRedirect = Some (Get_CheckRedirect defaultClient),
                      Timeout = 30 * Second\<rparr>,
                     \<lparr>Method = ''GET'', URL = ''example.test/users'',
                      Header = Map.empty(''User-Agent'' \<mapsto> [''My HTTP Client''])\<rparr>)],
                 returned = Inl (TransportError ''unsupported protocol scheme'')\<rparr>)"
  by (simp add: Get_def Let_def schemeCheckedLib_def exampleNewRequest_def hasHTTPScheme_def
        defaultClient_def Header_Set_def)

text \<open>
  C5, amended. For every client and every target that \<open>NewRequest\<close> rejects, \<open>Get\<close>
  returns the error \<open>NewRequest\<close> gave (the kind the specification calls
  InvalidRequestError) and never invokes the handle's \<open>Do\<close>.
\<close>

theorem Get_malformed_target:
  "NewRequest lib ''GET'' url = Inl err \<Longrightarrow>
   \<exists>res. Get lib c url = Some (Inr res) \<and> returned res = Inl err \<and> dispatched res = []"
  by (simp add: Get_rejected)

theorem Get_malformed_target_witness:
  "\<exists>res. Get exampleLib defaultClient '':foo'' = Some (Inr res)
     \<and> returned res = Inl (InvalidRequestError ''missing protocol scheme'')
     \<and> dispatched res = []"
proof -
  have "NewRequest exampleLib ''GET'' '':foo'' = Inl (InvalidRequestError ''missing protocol scheme'')"
    by (simp add: exampleLib_def exampleNewRequest_def)
  from Get_malformed_target [OF this] show ?thesis .
qed



text \<open>
  C6. For a client with a handle and a target \<open>NewRequest\<close> accepts, the request \<open>Get\<close>
  hands to \<open>Do\<close> carries the header \<open>User-Agent\<close> with exactly one value, the client's
  \<open>userAgent\<close>; the header is present also when that string is empty.
\<close>

theorem Get_sets_user_agent:
  assumes "NewRequest lib ''GET'' url = Inr req"
    and "client c = Some hc"
    and "hc' = hc\<lparr>Timeout := timeout c, CheckRedirect := Some (Get_CheckRedirect c)\<rparr>"
    and "req' = req\<lparr>Header := Header_Set (Header req) ''User-Agent'' (userAgent c)\<rparr>"
  shows "Header req' ''User-Agent'' = Some [userAgent c]
     \<and> Header req' ''User-Agent'' \<noteq> None
     \<and> Get lib c url =
          (case Do lib hc' req' of
             None \<Rightarrow> None
           | Some r \<Rightarrow> Some (Inr \<lparr>receiver = c\<lparr>client := Some hc'\<rparr>,
                                  dispatched = [(hc', req')], returned = r\<rparr>))"
proof (intro conjI)
  show "Header req' ''User-Agent'' = Some [userAgent c]"
    by (simp add: assms(4) Header_Set_def)
  then show "Header req' ''User-Agent'' \<noteq> None"
    by simp
  show "Get lib c url =
          (case Do lib hc' req' of
             None \<Rightarrow> None
           | Some r \<Rightarrow> Some (Inr \<lparr>receiver = c\<lparr>client := Some hc'\<rparr>,
                                  dispatched = [(hc', req')], returned = r\<rparr>))"
    unfolding assms(3,4) by (rule Get_accepted [OF assms(1,2)])
qed

theorem Get_sets_user_agent_witness:
  "\<exists>res hc req. Get exampleLib (defaultClient\<lparr>userAgent := []\<rparr>) ''http://example.test/new'' = Some (Inr res)
      \<and> dispatched res = [(hc, req)] \<and> Header req ''User-Agent'' = Some [[]]"
proof -
  let ?c = "defaultClient\<lparr>userAgent := []\<rparr>"
  let ?hc = "\<lparr>Transport = None, CheckRedirect = None, Timeout = 0\<rparr>"
  let ?req = "\<lparr>Method = ''GET'', URL = ''http://example.test/new'', Header = Map.empty\<rparr>"
  have a: "NewRequest exampleLib ''GET'' ''http://example.test/new'' = Inr ?req"
    by (simp add: example_accepts)
  have b: "client ?c = Some ?hc"
    by (simp add: defaultClient_def)
  have d: "Do exampleLib hc req = Some (Inr \<lparr>StatusCode = 200, Body = ''moved here''\<rparr>)"
    if "URL req = ''http://example.test/new''" for hc req
    using that by (simp add: exampleLib_def http_Client_Do_def example_final_answer)
  from Get_sets_user_agent [OF a b refl refl] show ?thesis
    by (simp add: d)
qed



end
